theory Spec2Isabelle
  imports Main "HOL-Library.AList"
begin

section \<open>The BFGMiner API client of pyasic (pyasic/API/bfgminer.py)\<close>

text \<open>
  The class \<open>BFGMinerAPI\<close> sends every command through \<open>self.send_command\<close>, a method of
  its base class \<open>BaseMinerAPI\<close>. The base class opens a socket per call, so a call both
  returns (or raises) and changes the world. The embedding below passes the world
  explicitly and takes \<open>send_command\<close> as a parameter of every method.
\<close>

subsection \<open>Values, replies, exceptions, calls\<close>

text \<open>
  Python values that occur in a reply. A \<open>dict\<close> is an association list: Python keeps
  insertion order, and \<open>d[k] = v\<close> replaces the value of an existing key in place and
  appends a new key at the end, which is what \<open>AList.update\<close> does.
\<close>

datatype pyval =
    VNone
  | VBool bool
  | VInt int
  | VStr string
  | VList "pyval list"
  | VDict "(string \<times> pyval) list"

type_synonym reply = "(string \<times> pyval) list"

text \<open>
  The exceptions a call of \<open>send_command\<close> can raise, as the handlers of the source
  tell them apart: \<open>except APIError\<close>, and \<open>except Exception\<close> for every other one
  (a refused connection, a timeout, a reply that does not decode).
\<close>

datatype exn = APIError string | OtherException string

text \<open>
  The \<open>parameters\<close> argument of \<open>send_command\<close>: the restart, enable and disable
  methods pass the integer \<open>n\<close> itself, the setters pass a formatted string.
\<close>

datatype param = PInt int | PStr string

text \<open>
  One call of \<open>send_command\<close> as the call site writes it. A keyword argument that the
  call site leaves out is \<open>None\<close>: its default belongs to \<open>BaseMinerAPI\<close>.
\<close>

record call =
  command :: string
  parameters :: "param option"
  allow_warning :: "bool option"

type_synonym 'w sender = "call \<Rightarrow> 'w \<Rightarrow> (exn + reply) \<times> 'w"

subsection \<open>Python string operations used by the source\<close>

text \<open>\<open>str(n)\<close> for an integer, as the f-strings \<open>f"{n},{opt},{val}"\<close> render it.\<close>

definition digit_char :: "nat \<Rightarrow> char" where
  "digit_char d = ''0123456789'' ! d"

function str_nat :: "nat \<Rightarrow> string" where
  "str_nat n = (if n < 10 then [digit_char n] else str_nat (n div 10) @ [digit_char (n mod 10)])"
  by pat_completeness auto
termination
  by (relation "measure id") auto

definition str_int :: "int \<Rightarrow> string" where
  "str_int i = (if i < 0 then CHR ''-'' # str_nat (nat (- i)) else str_nat (nat i))"

text \<open>\<open>sep.join(xs)\<close>.\<close>

fun join :: "string \<Rightarrow> string list \<Rightarrow> string" where
  "join sep [] = []"
| "join sep [x] = x"
| "join sep (x # y # ys) = x @ sep @ join sep (y # ys)"

text \<open>
  \<open>s.split(c)\<close> for a one-character separator: the result always has at least one
  element (\<open>"".split("+")\<close> is \<open>[""]\<close>).
\<close>

fun split_on :: "char \<Rightarrow> string \<Rightarrow> string list" where
  "split_on c [] = [[]]"
| "split_on c (x # xs) =
     (if x = c then [] # split_on c xs
      else (case split_on c xs of
              [] \<Rightarrow> [[x]]
            | y # ys \<Rightarrow> (x # y) # ys))"

subsection \<open>The single-command methods\<close>

text \<open>
  \<^verbatim>\<open>
  async def pgarestart(self, n: int) -> dict:
      return await self.send_command("pgadisable", parameters=n)
  async def procrestart(self, n: int) -> dict:
      return await self.send_command("procdisable", parameters=n)
  \<close>
\<close>

definition pgadisable :: "'w sender \<Rightarrow> int \<Rightarrow> 'w \<Rightarrow> (exn + reply) \<times> 'w" where
  "pgadisable send_command n w =
     send_command \<lparr>command = ''pgadisable'', parameters = Some (PInt n), allow_warning = None\<rparr> w"

definition pgarestart :: "'w sender \<Rightarrow> int \<Rightarrow> 'w \<Rightarrow> (exn + reply) \<times> 'w" where
  "pgarestart send_command n w =
     send_command \<lparr>command = ''pgadisable'', parameters = Some (PInt n), allow_warning = None\<rparr> w"

definition procdisable :: "'w sender \<Rightarrow> int \<Rightarrow> 'w \<Rightarrow> (exn + reply) \<times> 'w" where
  "procdisable send_command n w =
     send_command \<lparr>command = ''procdisable'', parameters = Some (PInt n), allow_warning = None\<rparr> w"

definition procrestart :: "'w sender \<Rightarrow> int \<Rightarrow> 'w \<Rightarrow> (exn + reply) \<times> 'w" where
  "procrestart send_command n w =
     send_command \<lparr>command = ''procdisable'', parameters = Some (PInt n), allow_warning = None\<rparr> w"

text \<open>
  \<^verbatim>\<open>
  async def pgaset(self, n: int, opt: str, val: int = None) -> dict:
      if val:
          return await self.send_command("pgaset", parameters=f"{n},{opt},{val}")
      else:
          return await self.send_command("pgaset", parameters=f"{n},{opt}")
  \<close>
  The body of \<open>pprocset\<close> is the same text. \<open>val\<close> is \<open>None\<close> or an integer; \<open>if val\<close>
  is Python's truth test, false for \<open>None\<close> and for \<open>0\<close>.
\<close>

definition truthy :: "int option \<Rightarrow> bool" where
  "truthy val = (case val of None \<Rightarrow> False | Some v \<Rightarrow> v \<noteq> 0)"

definition str_val :: "int option \<Rightarrow> string" where
  "str_val val = (case val of None \<Rightarrow> ''None'' | Some v \<Rightarrow> str_int v)"

definition pgaset :: "'w sender \<Rightarrow> int \<Rightarrow> string \<Rightarrow> int option \<Rightarrow> 'w \<Rightarrow> (exn + reply) \<times> 'w" where
  "pgaset send_command n opt val w =
     (if truthy val then
        send_command \<lparr>command = ''pgaset'',
          parameters = Some (PStr (str_int n @ '','' @ opt @ '','' @ str_val val)),
          allow_warning = None\<rparr> w
      else
        send_command \<lparr>command = ''pgaset'',
          parameters = Some (PStr (str_int n @ '','' @ opt)),
          allow_warning = None\<rparr> w)"

definition pprocset :: "'w sender \<Rightarrow> int \<Rightarrow> string \<Rightarrow> int option \<Rightarrow> 'w \<Rightarrow> (exn + reply) \<times> 'w" where
  "pprocset send_command n opt val w =
     (if truthy val then
        send_command \<lparr>command = ''pgaset'',
          parameters = Some (PStr (str_int n @ '','' @ opt @ '','' @ str_val val)),
          allow_warning = None\<rparr> w
      else
        send_command \<lparr>command = ''pgaset'',
          parameters = Some (PStr (str_int n @ '','' @ opt)),
          allow_warning = None\<rparr> w)"

subsection \<open>The multicommand orchestrator\<close>

text \<open>
  \<^verbatim>\<open>
  async def _x19_multicommand(self, *commands) -> dict:
      data = None
      try:
          data = {}
          for cmd in commands:
              data[cmd] = []
              data[cmd].append(await self.send_command(cmd, allow_warning=True))
      except APIError:
          pass
      except Exception as e:
          logging.warning(...)
      return data
  \<close>
  The \<open>try\<close> encloses the whole loop: the first call that raises ends the loop, after
  \<open>data[cmd] = []\<close> has been stored for its command. Both handlers fall through to
  \<open>return data\<close>; the second one writes a log line first.
\<close>

fun x19_loop :: "'w sender \<Rightarrow> string list \<Rightarrow> reply \<Rightarrow> 'w \<Rightarrow> reply \<times> 'w" where
  "x19_loop send_command [] data w = (data, w)"
| "x19_loop send_command (cmd # cmds) data w =
     (let data1 = AList.update cmd (VList []) data in
      case send_command \<lparr>command = cmd, parameters = None, allow_warning = Some True\<rparr> w of
        (Inr r, w') \<Rightarrow>
          x19_loop send_command cmds (AList.update cmd (VList [VDict r]) data1) w'
      | (Inl (APIError m), w') \<Rightarrow> (data1, w')
      | (Inl (OtherException m), w') \<Rightarrow> (data1, w'))"

definition x19_multicommand :: "'w sender \<Rightarrow> string list \<Rightarrow> 'w \<Rightarrow> reply \<times> 'w" where
  "x19_multicommand send_command commands w = x19_loop send_command commands [] w"

text \<open>
  \<^verbatim>\<open>
  async def multicommand(self, *commands: str, allow_warning: bool = True) -> dict:
      commands = self._check_commands(*commands)
      command = "+".join(commands)
      try:
          data = await self.send_command(command, allow_warning=allow_warning)
      except APIError:
          data = await self._x19_multicommand(*command.split("+"))
      data["multicommand"] = True
      return data
  \<close>
  \<open>_check_commands\<close> is a method of \<open>BaseMinerAPI\<close> and is a parameter here: a function
  from the commands given to the commands kept.
\<close>

definition mark :: "reply \<Rightarrow> reply" where
  "mark data = AList.update ''multicommand'' (VBool True) data"

definition batched_call :: "(string list \<Rightarrow> string list) \<Rightarrow> string list \<Rightarrow> bool \<Rightarrow> call" where
  "batched_call check_commands commands aw =
     \<lparr>command = join ''+'' (check_commands commands), parameters = None,
      allow_warning = Some aw\<rparr>"

definition multicommand ::
  "(string list \<Rightarrow> string list) \<Rightarrow> 'w sender \<Rightarrow> string list \<Rightarrow> bool \<Rightarrow> 'w \<Rightarrow> (exn + reply) \<times> 'w"
where
  "multicommand check_commands send_command commands aw w =
     (let cmd = join ''+'' (check_commands commands) in
      case send_command \<lparr>command = cmd, parameters = None, allow_warning = Some aw\<rparr> w of
        (Inr data, w') \<Rightarrow> (Inr (mark data), w')
      | (Inl (APIError m), w') \<Rightarrow>
          (case x19_multicommand send_command (split_on CHR ''+'' cmd) w' of
             (data, w'') \<Rightarrow> (Inr (mark data), w''))
      | (Inl (OtherException m), w') \<Rightarrow> (Inl (OtherException m), w'))"

subsection \<open>Observing the calls\<close>

text \<open>
  To speak about which calls a method issues, \<open>send_command\<close> is wrapped so that every
  call and its outcome is appended to a log carried beside the world.
\<close>

type_synonym entry = "call \<times> (exn + reply)"

definition logged :: "'w sender \<Rightarrow> ('w \<times> entry list) sender" where
  "logged send_command c = (\<lambda>(w, log).
     case send_command c w of (r, w') \<Rightarrow> (r, (w', log @ [(c, r)])))"

definition issued :: "'a \<times> 'w \<times> entry list \<Rightarrow> call list" where
  "issued run = map fst (snd (snd run))"

text \<open>The call the fallback loop makes for one command.\<close>

definition x19_call :: "string \<Rightarrow> call" where
  "x19_call cmd = \<lparr>command = cmd, parameters = None, allow_warning = Some True\<rparr>"

definition ok :: "exn + reply \<Rightarrow> bool" where
  "ok r = (case r of Inl e \<Rightarrow> False | Inr d \<Rightarrow> True)"

text \<open>
  What the fallback loop leaves under a command's key after a logged call: the reply in
  a one-element list, or the empty list stored before a call that raised.
\<close>

definition slot :: "entry \<Rightarrow> string \<times> pyval" where
  "slot e = (command (fst e), (case snd e of Inl x \<Rightarrow> VList [] | Inr r \<Rightarrow> VList [VDict r]))"

text \<open>The calls of the fallback loop and their outcomes, without the reply it builds.\<close>

fun x19_trace :: "'w sender \<Rightarrow> string list \<Rightarrow> 'w \<Rightarrow> entry list" where
  "x19_trace send [] w = []"
| "x19_trace send (cmd # cmds) w =
     (case send (x19_call cmd) w of
        (Inr r, w') \<Rightarrow> (x19_call cmd, Inr r) # x19_trace send cmds w'
      | (Inl e, w') \<Rightarrow> [(x19_call cmd, Inl e)])"

definition fallback_log :: "'a \<times> 'w \<times> entry list \<Rightarrow> entry list" where
  "fallback_log run = tl (snd (snd run))"

text \<open>The keys of a reply; a call that raised has none.\<close>

definition keys :: "exn + reply \<Rightarrow> string set" where
  "keys r = (case r of Inl e \<Rightarrow> {} | Inr d \<Rightarrow> fst ` set d)"

subsection \<open>Example miners\<close>

text \<open>
  Concrete instances of \<open>send_command\<close>, without state. The first is a firmware that
  rejects every batched line and the command \<open>pools\<close> and answers any other command.
\<close>

definition x19_miner :: "unit sender" where
  "x19_miner c w =
     (if CHR ''+'' \<in> set (command c) \<or> command c = ''pools''
      then (Inl (APIError ''invalid command''), w)
      else (Inr [(''STATUS'', VStr ''S'')], w))"

text \<open>A miner that cannot be reached.\<close>

definition refused_miner :: "unit sender" where
  "refused_miner c w = (Inl (OtherException ''connection refused''), w)"

text \<open>A miner that rejects a batched line and refuses every connection after it.\<close>

definition dropping_miner :: "unit sender" where
  "dropping_miner c w =
     (if CHR ''+'' \<in> set (command c)
      then (Inl (APIError ''invalid command''), w)
      else (Inl (OtherException ''connection refused''), w))"

text \<open>
  A miner that accepts batched lines, replying as the wire protocol of the spec (4.1, 6)
  has it: the reply to a single command carries \<open>STATUS\<close> and the command's section, the
  reply to a batched line nests one such reply per command name.
\<close>

definition single_reply :: "string \<Rightarrow> reply" where
  "single_reply section =
     [(''STATUS'', VList [VDict [(''STATUS'', VStr ''S'')]]), (section, VList [])]"

definition cgminer :: "unit sender" where
  "cgminer c w =
     (if command c = ''pools+summary+version'' then
        (Inr [(''pools'', VList [VDict (single_reply ''POOLS'')]),
              (''summary'', VList [VDict (single_reply ''SUMMARY'')]),
              (''version'', VList [VDict (single_reply ''VERSION'')])], w)
      else if command c = ''pools'' then (Inr (single_reply ''POOLS''), w)
      else if command c = ''summary'' then (Inr (single_reply ''SUMMARY''), w)
      else if command c = ''version'' then (Inr (single_reply ''VERSION''), w)
      else (Inl (APIError ''invalid command''), w))"

subsection \<open>The wire line\<close>

text \<open>
  Modelled from the spec: the encoding step of \<open>send_command\<close>, which lives in
  \<open>BaseMinerAPI\<close> (pyasic/API/__init__.py) and is not among the sources. The spec, 4.1
  and 6: the request is a single line, and "when a command carries parameters, append a
  parameter-separator (\<open>,\<close>) followed by the stringified parameter list".
\<close>

definition str_param :: "param \<Rightarrow> string" where
  "str_param p = (case p of PInt i \<Rightarrow> str_int i | PStr s \<Rightarrow> s)"

definition encode :: "call \<Rightarrow> string" where
  "encode c = (case parameters c of None \<Rightarrow> command c | Some p \<Rightarrow> command c @ '','' @ str_param p)"

section \<open>Properties\<close>

subsection \<open>Auxiliary facts\<close>

lemma logged_run:
  "logged send c (w, log) = (fst (send c w), (snd (send c w), log @ [(c, fst (send c w))]))"
  by (simp add: logged_def split: prod.splits)

lemma x19_loop_logged:
  "x19_loop (logged send) cmds data (w, log) =
     (fst (x19_loop send cmds data w), (snd (x19_loop send cmds data w), log @ x19_trace send cmds w))"
proof (induction cmds arbitrary: data w log)
  case Nil
  then show ?case by simp
next
  case (Cons cmd cmds)
  obtain r w' where s: "send (x19_call cmd) w = (r, w')" by (cases "send (x19_call cmd) w")
  show ?case
  proof (cases r)
    case (Inl e)
    with s show ?thesis
      by (cases e) (simp_all add: logged_run x19_call_def Let_def)
  next
    case (Inr d)
    with s Cons.IH show ?thesis
      by (simp add: logged_run x19_call_def Let_def)
  qed
qed

lemma x19_trace_calls:
  "map fst (x19_trace send cmds w) = map x19_call (take (length (x19_trace send cmds w)) cmds)"
proof (induction cmds arbitrary: w)
  case Nil
  then show ?case by simp
next
  case (Cons cmd cmds)
  then show ?case by (auto split: prod.splits sum.splits)
qed



lemma x19_trace_butlast_ok: "list_all (\<lambda>e. ok (snd e)) (butlast (x19_trace send cmds w))"
proof (induction cmds arbitrary: w)
  case Nil
  then show ?case by simp
next
  case (Cons cmd cmds)
  then show ?case by (auto simp: ok_def split: prod.splits sum.splits)
qed

lemma x19_trace_stops:
  "length (x19_trace send cmds w) < length cmds \<Longrightarrow>
     x19_trace send cmds w \<noteq> [] \<and> \<not> ok (snd (last (x19_trace send cmds w)))"
proof (induction cmds arbitrary: w)
  case Nil
  then show ?case by simp
next
  case (Cons cmd cmds)
  obtain r w' where s: "send (x19_call cmd) w = (r, w')" by (cases "send (x19_call cmd) w")
  show ?case
  proof (cases r)
    case (Inl e)
    with s show ?thesis by (simp add: ok_def)
  next
    case (Inr d)
    with s Cons.prems have "length (x19_trace send cmds w') < length cmds" by simp
    from Cons.IH [OF this] s Inr show ?thesis by simp
  qed
qed

lemma x19_loop_map_of:
  "map_of (fst (x19_loop send cmds data w)) =
     map_of data ++ map_of (rev (map slot (x19_trace send cmds w)))"
proof (induction cmds arbitrary: data w)
  case Nil
  then show ?case by simp
next
  case (Cons cmd cmds)
  obtain r w' where s: "send (x19_call cmd) w = (r, w')" by (cases "send (x19_call cmd) w")
  show ?case
  proof (cases r)
    case (Inl e)
    with s show ?thesis
      by (cases e) (simp_all add: x19_call_def Let_def slot_def update_conv' map_add_def fun_eq_iff)
  next
    case (Inr d)
    with s Cons.IH show ?thesis
      by (simp add: x19_call_def Let_def slot_def update_conv' map_add_def fun_eq_iff split: option.splits)
  qed
qed






lemma multicommand_logged_ok:
  assumes "send (batched_call check cmds aw) w = (Inr d, w1)"
  shows "multicommand check (logged send) cmds aw (w, log) =
           (Inr (mark d), (w1, log @ [(batched_call check cmds aw, Inr d)]))"
  using assms by (simp add: multicommand_def batched_call_def logged_run Let_def)

lemma multicommand_logged_other:
  assumes "send (batched_call check cmds aw) w = (Inl (OtherException m), w1)"
  shows "multicommand check (logged send) cmds aw (w, log) =
           (Inl (OtherException m), (w1, log @ [(batched_call check cmds aw, Inl (OtherException m))]))"
  using assms by (simp add: multicommand_def batched_call_def logged_run Let_def)

lemma multicommand_logged_api:
  assumes "send (batched_call check cmds aw) w = (Inl (APIError m), w1)"
  shows "multicommand check (logged send) cmds aw (w, log) =
           (Inr (mark (fst (x19_loop send (split_on CHR ''+'' (join ''+'' (check cmds))) [] w1))),
            (snd (x19_loop send (split_on CHR ''+'' (join ''+'' (check cmds))) [] w1),
             log @ (batched_call check cmds aw, Inl (APIError m))
               # x19_trace send (split_on CHR ''+'' (join ''+'' (check cmds))) w1))"
  using assms
  by (simp add: multicommand_def batched_call_def logged_run Let_def x19_multicommand_def
      x19_loop_logged)

lemma str_int_0: "str_int 0 = ''0''"
  by (simp add: str_int_def digit_char_def)

lemma str_int_50: "str_int 50 = ''50''"
  by (simp add: str_int_def digit_char_def)

subsection \<open>The single-command methods\<close>

text \<open>
  C8. For every \<open>n\<close>, \<open>pgarestart(n)\<close> issues exactly one call of \<open>send_command\<close>, with
  the command name \<open>pgadisable\<close> and the parameter \<open>n\<close>, which is the call of
  \<open>pgadisable(n)\<close>; \<open>procrestart(n)\<close> issues the call of \<open>procdisable(n)\<close>. Neither
  sends a restart command.
\<close>

theorem restart_dispatches_disable:
  "issued (pgarestart (logged send) n (w, [])) =
     [\<lparr>command = ''pgadisable'', parameters = Some (PInt n), allow_warning = None\<rparr>]
   \<and> pgarestart send n w = pgadisable send n w
   \<and> map command (issued (pgarestart (logged send) n (w, []))) \<noteq> [''pgarestart'']
   \<and> issued (procrestart (logged send) n (w, [])) =
     [\<lparr>command = ''procdisable'', parameters = Some (PInt n), allow_warning = None\<rparr>]
   \<and> procrestart send n w = procdisable send n w
   \<and> map command (issued (procrestart (logged send) n (w, []))) \<noteq> [''procrestart'']"
  by (simp add: issued_def pgarestart_def pgadisable_def procrestart_def procdisable_def
      logged_run)

text \<open>
  C9. For every \<open>n\<close>, \<open>opt\<close> and \<open>val\<close>, \<open>pprocset(n, opt, val)\<close> issues exactly one call,
  with the command name \<open>pgaset\<close>: the very call that \<open>pgaset(n, opt, val)\<close> issues.
\<close>

theorem pprocset_dispatches_pgaset:
  "map command (issued (pprocset (logged send) n opt val (w, []))) = [''pgaset'']
   \<and> pprocset send n opt val w = pgaset send n opt val w"
  by (simp add: issued_def pprocset_def pgaset_def logged_run)

text \<open>
  C10. Called with \<open>val = 0\<close>, \<open>pgaset\<close> and \<open>pprocset\<close> issue \<open>pgaset\<close> with the
  parameter string \<open>"n,opt"\<close>, without a third field, and behave exactly as when \<open>val\<close>
  is left out (\<open>None\<close>).
\<close>

theorem set_drops_zero_val:
  "issued (pgaset (logged send) n opt (Some 0) (w, [])) =
     [\<lparr>command = ''pgaset'', parameters = Some (PStr (str_int n @ '','' @ opt)),
       allow_warning = None\<rparr>]
   \<and> pgaset send n opt (Some 0) w = pgaset send n opt None w
   \<and> issued (pprocset (logged send) n opt (Some 0) (w, [])) =
     [\<lparr>command = ''pgaset'', parameters = Some (PStr (str_int n @ '','' @ opt)),
       allow_warning = None\<rparr>]
   \<and> pprocset send n opt (Some 0) w = pprocset send n opt None w"
  by (simp add: issued_def pprocset_def pgaset_def truthy_def logged_run)

text \<open>
  C7. \<open>pgaset(0, "clock", 50)\<close> issues the command \<open>pgaset\<close> with the parameter string
  \<open>"0,clock,50"\<close>, whose wire line is \<open>"pgaset,0,clock,50"\<close>. In general, for a value
  \<open>v\<close> that passes the truth test (\<open>v \<noteq> 0\<close>), \<open>pgaset(n, opt, v)\<close> issues \<open>pgaset\<close> with
  \<open>n\<close>, \<open>opt\<close> and \<open>v\<close> joined by commas.
\<close>

theorem pgaset_wire_string:
  "map encode (issued (pgaset (logged send) 0 ''clock'' (Some 50) (w, []))) = [''pgaset,0,clock,50'']
   \<and> (v \<noteq> 0 \<longrightarrow>
        issued (pgaset (logged send) n opt (Some v) (w, [])) =
          [\<lparr>command = ''pgaset'',
            parameters = Some (PStr (join '','' [str_int n, opt, str_int v])),
            allow_warning = None\<rparr>]
        \<and> map encode (issued (pgaset (logged send) n opt (Some v) (w, []))) =
          [join '','' [''pgaset'', str_int n, opt, str_int v]])"
  by (simp add: issued_def pgaset_def truthy_def str_val_def logged_run encode_def
      str_param_def str_int_0 str_int_50)

theorem pgaset_wire_string_witness:
  "(50::int) \<noteq> 0
   \<and> issued (pgaset (logged cgminer) 0 ''clock'' (Some 50) ((), [])) =
       [\<lparr>command = ''pgaset'', parameters = Some (PStr ''0,clock,50''), allow_warning = None\<rparr>]
   \<and> map encode (issued (pgaset (logged cgminer) 0 ''clock'' (Some 50) ((), []))) =
       [''pgaset,0,clock,50'']"
  using pgaset_wire_string [of cgminer "()" 50 0 "''clock''"]
  by (simp add: str_int_0 str_int_50 encode_def str_param_def)

subsection \<open>The sequential fallback\<close>

text \<open>Two runs of \<open>multicommand\<close> against the firmware that rejects batched lines.\<close>

lemma x19_run_pools_summary:
  "multicommand id (logged x19_miner) [''pools'', ''summary''] True ((), []) =
     (Inr [(''pools'', VList []), (''multicommand'', VBool True)],
      (),
      [(\<lparr>command = ''pools+summary'', parameters = None, allow_warning = Some True\<rparr>,
        Inl (APIError ''invalid command'')),
       (\<lparr>command = ''pools'', parameters = None, allow_warning = Some True\<rparr>,
        Inl (APIError ''invalid command''))])"
  by (simp add: multicommand_def x19_multicommand_def logged_run x19_miner_def mark_def Let_def)

lemma x19_run_summary_pools_version:
  "multicommand id (logged x19_miner) [''summary'', ''pools'', ''version''] False ((), []) =
     (Inr [(''summary'', VList [VDict [(''STATUS'', VStr ''S'')]]), (''pools'', VList []),
           (''multicommand'', VBool True)],
      (),
      [(\<lparr>command = ''summary+pools+version'', parameters = None, allow_warning = Some False\<rparr>,
        Inl (APIError ''invalid command'')),
       (\<lparr>command = ''summary'', parameters = None, allow_warning = Some True\<rparr>,
        Inr [(''STATUS'', VStr ''S'')]),
       (\<lparr>command = ''pools'', parameters = None, allow_warning = Some True\<rparr>,
        Inl (APIError ''invalid command''))])"
  by (simp add: multicommand_def x19_multicommand_def logged_run x19_miner_def mark_def Let_def)


text \<open>
  C1. The source announces \<open># send all commands individually\<close> and swallows the
  exception of a failing command, so a command that fails during the fallback is to be
  left out of the reply while the remaining commands are still issued. The code does not
  do this: the \<open>try\<close> encloses the whole loop. For \<open>multicommand("pools", "summary")\<close>
  against a firmware that rejects the batched line and \<open>pools\<close> and answers \<open>summary\<close>,
  the calls issued are \<open>pools+summary\<close> and \<open>pools\<close> only, and the reply is
  \<open>{"pools": [], "multicommand": True}\<close>: \<open>pools\<close>, which raises, keeps an entry (the empty
  list), and \<open>summary\<close>, which succeeds on its own, is never issued and has no entry.
\<close>

theorem fallback_drops_remaining_commands:
  "fst (x19_miner \<lparr>command = ''pools+summary'', parameters = None, allow_warning = Some True\<rparr> ())
     = Inl (APIError ''invalid command'')
   \<and> fst (x19_miner \<lparr>command = ''pools'', parameters = None, allow_warning = Some True\<rparr> ())
     = Inl (APIError ''invalid command'')
   \<and> fst (x19_miner \<lparr>command = ''summary'', parameters = None, allow_warning = Some True\<rparr> ())
     = Inr [(''STATUS'', VStr ''S'')]
   \<and> fst (multicommand id (logged x19_miner) [''pools'', ''summary''] True ((), [])) =
       Inr [(''pools'', VList []), (''multicommand'', VBool True)]
   \<and> map command (issued (multicommand id (logged x19_miner) [''pools'', ''summary''] True ((), [])))
     = [''pools+summary'', ''pools'']"
  by (simp add: x19_run_pools_summary issued_def) (simp add: x19_miner_def)

subsection \<open>The two strategies\<close>

text \<open>Runs of \<open>multicommand\<close> against the other example miners.\<close>

lemma cgminer_batched:
  "fst (cgminer (batched_call id [''pools'', ''summary'', ''version''] True) ()) =
     Inr [(''pools'', VList [VDict (single_reply ''POOLS'')]),
          (''summary'', VList [VDict (single_reply ''SUMMARY'')]),
          (''version'', VList [VDict (single_reply ''VERSION'')])]"
  by (simp add: cgminer_def batched_call_def)

lemma cgminer_plain_run:
  "fst (multicommand id cgminer [''pools'', ''summary'', ''version''] True ()) =
     Inr [(''pools'', VList [VDict (single_reply ''POOLS'')]),
          (''summary'', VList [VDict (single_reply ''SUMMARY'')]),
          (''version'', VList [VDict (single_reply ''VERSION'')]),
          (''multicommand'', VBool True)]"
  by (simp add: multicommand_def cgminer_def mark_def Let_def)

lemma x19_plain_run:
  "fst (multicommand id x19_miner [''pools'', ''summary''] True ()) =
     Inr [(''pools'', VList []), (''multicommand'', VBool True)]"
  by (simp add: multicommand_def x19_multicommand_def x19_miner_def mark_def Let_def)

lemma refused_run:
  "multicommand id (logged refused_miner) [''pools'', ''summary''] True ((), []) =
     (Inl (OtherException ''connection refused''),
      (),
      [(\<lparr>command = ''pools+summary'', parameters = None, allow_warning = Some True\<rparr>,
        Inl (OtherException ''connection refused''))])"
  by (simp add: multicommand_def logged_run refused_miner_def Let_def)

lemma dropping_run:
  "multicommand id (logged dropping_miner) [''pools'', ''summary''] True ((), []) =
     (Inr [(''pools'', VList []), (''multicommand'', VBool True)],
      (),
      [(\<lparr>command = ''pools+summary'', parameters = None, allow_warning = Some True\<rparr>,
        Inl (APIError ''invalid command'')),
       (\<lparr>command = ''pools'', parameters = None, allow_warning = Some True\<rparr>,
        Inl (OtherException ''connection refused''))])"
  by (simp add: multicommand_def x19_multicommand_def logged_run dropping_miner_def mark_def
      Let_def)

lemma x19_trace_allow_warning:
  "list_all (\<lambda>c. allow_warning c = Some True \<and> parameters c = None)
     (map fst (x19_trace send cmds w))"
  by (simp add: x19_trace_calls list_all_iff x19_call_def)



text \<open>
  C3, as the code has it. \<open>multicommand\<close> raises exactly when the batched attempt raises
  an exception other than \<open>APIError\<close>; it then propagates that exception after this
  single call, without entering the fallback. When the batched attempt raises \<open>APIError\<close>
  the fallback runs and \<open>multicommand\<close> returns a reply, whatever the individual calls
  do.
\<close>

theorem multicommand_raises_iff:
  "(\<exists>e. fst (multicommand check send cmds aw w) = Inl e) =
     (\<exists>m. fst (send (batched_call check cmds aw) w) = Inl (OtherException m))
   \<and> (fst (send (batched_call check cmds aw) w) = Inl (OtherException m) \<longrightarrow>
        fst (multicommand check send cmds aw w) = Inl (OtherException m)
        \<and> issued (multicommand check (logged send) cmds aw (w, [])) = [batched_call check cmds aw])
   \<and> (fst (send (batched_call check cmds aw) w) = Inl (APIError m) \<longrightarrow>
        (\<exists>data. fst (multicommand check send cmds aw w) = Inr data))"
proof -
  let ?b = "batched_call check cmds aw"
  obtain r w1 where s: "send ?b w = (r, w1)" by (cases "send ?b w")
  show ?thesis
  proof (cases r)
    case (Inr d)
    with s show ?thesis by (simp add: multicommand_def batched_call_def)
  next
    case (Inl e)
    show ?thesis
    proof (cases e)
      case (APIError m')
      with s Inl show ?thesis
        by (simp add: multicommand_def batched_call_def split: prod.splits)
    next
      case (OtherException m')
      with s Inl
        multicommand_logged_other [where send = send and w = w and ?w1.0 = w1 and log = "[]"]
      show ?thesis by (simp add: issued_def) (simp add: multicommand_def batched_call_def)
    qed
  qed
qed

theorem multicommand_raises_iff_witness:
  "fst (refused_miner (batched_call id [''pools'', ''summary''] True) ()) =
     Inl (OtherException ''connection refused'')
   \<and> fst (multicommand id refused_miner [''pools'', ''summary''] True ()) =
     Inl (OtherException ''connection refused'')
   \<and> issued (multicommand id (logged refused_miner) [''pools'', ''summary''] True ((), [])) =
     [batched_call id [''pools'', ''summary''] True]
   \<and> fst (dropping_miner (batched_call id [''pools'', ''summary''] True) ()) =
     Inl (APIError ''invalid command'')
   \<and> (\<exists>data. fst (multicommand id dropping_miner [''pools'', ''summary''] True ()) = Inr data)"
proof -
  have r: "fst (refused_miner (batched_call id [''pools'', ''summary''] True) ()) =
     Inl (OtherException ''connection refused'')"
    by (simp add: refused_miner_def)
  have d: "fst (dropping_miner (batched_call id [''pools'', ''summary''] True) ()) =
     Inl (APIError ''invalid command'')"
    by (simp add: dropping_miner_def batched_call_def)
  from r d
    multicommand_raises_iff [where check = id and cmds = "[''pools'', ''summary'']" and aw = True
      and send = refused_miner and w = "()" and m = "''connection refused''"]
    multicommand_raises_iff [where check = id and cmds = "[''pools'', ''summary'']" and aw = True
      and send = dropping_miner and w = "()" and m = "''invalid command''"]
  show ?thesis by simp
qed

text \<open>
  C3 as stated fails. Against a miner that refuses the connection \<open>multicommand\<close> raises
  on the batched attempt, and no individual command is ever issued: the raise does not
  come from the fallback. Against a miner that rejects the batched line and then refuses
  the connection, the fallback fails on its first call, and \<open>multicommand\<close> returns a
  reply instead of raising.
\<close>

theorem multicommand_raises_counterexample:
  "fst (multicommand id (logged refused_miner) [''pools'', ''summary''] True ((), [])) =
     Inl (OtherException ''connection refused'')
   \<and> map command
       (issued (multicommand id (logged refused_miner) [''pools'', ''summary''] True ((), []))) =
     [''pools+summary'']
   \<and> fst (multicommand id (logged dropping_miner) [''pools'', ''summary''] True ((), [])) =
     Inr [(''pools'', VList []), (''multicommand'', VBool True)]
   \<and> snd (snd (multicommand id (logged dropping_miner) [''pools'', ''summary''] True ((), []))) =
     [(\<lparr>command = ''pools+summary'', parameters = None, allow_warning = Some True\<rparr>,
        Inl (APIError ''invalid command'')),
      (\<lparr>command = ''pools'', parameters = None, allow_warning = Some True\<rparr>,
        Inl (OtherException ''connection refused''))]"
  by (simp add: refused_run dropping_run issued_def)

text \<open>
  C4. Every reply that \<open>multicommand\<close> returns, from the batched attempt or from the
  fallback, maps the key \<open>multicommand\<close> to \<open>True\<close>.
\<close>

theorem multicommand_marks_reply:
  "fst (multicommand check send cmds aw w) = Inr data \<Longrightarrow>
     map_of data ''multicommand'' = Some (VBool True)"
proof -
  assume a: "fst (multicommand check send cmds aw w) = Inr data"
  obtain r w1 where s: "send (batched_call check cmds aw) w = (r, w1)"
    by (cases "send (batched_call check cmds aw) w")
  show ?thesis
  proof (cases r)
    case (Inr d)
    with s a have "data = mark d" by (simp add: multicommand_def batched_call_def)
    then show ?thesis by (simp add: mark_def update_conv')
  next
    case (Inl e)
    show ?thesis
    proof (cases e)
      case (APIError m)
      with s Inl a have "\<exists>d. data = mark d"
        by (auto simp: multicommand_def batched_call_def split: prod.splits)
      then show ?thesis by (auto simp: mark_def update_conv')
    next
      case (OtherException m)
      with s Inl a show ?thesis by (simp add: multicommand_def batched_call_def)
    qed
  qed
qed

theorem multicommand_marks_reply_witness:
  "fst (multicommand id cgminer [''pools'', ''summary'', ''version''] True ()) =
     Inr [(''pools'', VList [VDict (single_reply ''POOLS'')]),
          (''summary'', VList [VDict (single_reply ''SUMMARY'')]),
          (''version'', VList [VDict (single_reply ''VERSION'')]),
          (''multicommand'', VBool True)]
   \<and> map_of [(''pools'', VList [VDict (single_reply ''POOLS'')]),
          (''summary'', VList [VDict (single_reply ''SUMMARY'')]),
          (''version'', VList [VDict (single_reply ''VERSION'')]),
          (''multicommand'', VBool True)] ''multicommand'' = Some (VBool True)
   \<and> fst (multicommand id x19_miner [''pools'', ''summary''] True ()) =
     Inr [(''pools'', VList []), (''multicommand'', VBool True)]
   \<and> map_of [(''pools'', VList []), (''multicommand'', VBool True)] ''multicommand'' =
     Some (VBool True)"
proof -
  have a: "fst (multicommand id cgminer [''pools'', ''summary'', ''version''] True ()) =
     Inr [(''pools'', VList [VDict (single_reply ''POOLS'')]),
          (''summary'', VList [VDict (single_reply ''SUMMARY'')]),
          (''version'', VList [VDict (single_reply ''VERSION'')]),
          (''multicommand'', VBool True)]"
    by (rule cgminer_plain_run)
  have b: "fst (multicommand id x19_miner [''pools'', ''summary''] True ()) =
     Inr [(''pools'', VList []), (''multicommand'', VBool True)]"
    by (rule x19_plain_run)
  from a b multicommand_marks_reply [OF a] multicommand_marks_reply [OF b]
  show ?thesis by simp
qed

text \<open>
  C5. Every call of the sequential fallback passes \<open>allow_warning=True\<close>: all calls of
  \<open>_x19_multicommand\<close>, and so all calls of \<open>multicommand\<close> after the batched one,
  whatever \<open>allow_warning\<close> the caller gave.
\<close>

theorem fallback_allows_warnings:
  "list_all (\<lambda>c. allow_warning c = Some True)
     (issued (x19_multicommand (logged send) cmds (w, [])))
   \<and> list_all (\<lambda>c. allow_warning c = Some True)
     (map fst (fallback_log (multicommand check (logged send) cmds aw (w, []))))"
proof -
  have a: "list_all (\<lambda>c. allow_warning c = Some True)
     (issued (x19_multicommand (logged send) cmds (w, [])))"
    using x19_trace_allow_warning [of send cmds w]
    by (simp add: issued_def x19_multicommand_def x19_loop_logged list_all_iff)
  let ?b = "batched_call check cmds aw"
  obtain r w1 where s: "send ?b w = (r, w1)" by (cases "send ?b w")
  have b: "list_all (\<lambda>c. allow_warning c = Some True)
     (map fst (fallback_log (multicommand check (logged send) cmds aw (w, []))))"
  proof (cases r)
    case (Inr d)
    with s multicommand_logged_ok [where send = send and w = w and ?w1.0 = w1 and log = "[]"]
    show ?thesis by (simp add: fallback_log_def)
  next
    case (Inl e)
    show ?thesis
    proof (cases e)
      case (APIError m)
      with s Inl have s': "send ?b w = (Inl (APIError m), w1)" by simp
      from multicommand_logged_api [where send = send and w = w and log = "[]", OF s']
        x19_trace_allow_warning [of send _ w1]
      show ?thesis by (simp add: fallback_log_def list_all_iff)
    next
      case (OtherException m)
      with s Inl
        multicommand_logged_other [where send = send and w = w and ?w1.0 = w1 and log = "[]"]
      show ?thesis by (simp add: fallback_log_def)
    qed
  qed
  from a b show ?thesis by simp
qed

theorem fallback_allows_warnings_witness:
  "map allow_warning
     (issued (multicommand id (logged x19_miner) [''summary'', ''pools'', ''version''] False ((), [])))
     = [Some False, Some True, Some True]
   \<and> list_all (\<lambda>c. allow_warning c = Some True)
       (map fst (fallback_log
          (multicommand id (logged x19_miner) [''summary'', ''pools'', ''version''] False ((), []))))
   \<and> length (fallback_log
          (multicommand id (logged x19_miner) [''summary'', ''pools'', ''version''] False ((), []))) = 2"
  using fallback_allows_warnings
    [where check = id and cmds = "[''summary'', ''pools'', ''version'']" and aw = False
       and send = x19_miner and w = "()"]
  by (simp add: x19_run_summary_pools_version issued_def fallback_log_def)

text \<open>
  C6, as the code has it. When the batched request is not rejected, \<open>multicommand\<close>
  issues the batched call only and returns its reply with the key \<open>multicommand\<close> set to
  \<open>True\<close>: the keys of the result are the keys of the batched reply and \<open>multicommand\<close>,
  and every other key keeps its value. No individual call is made and nothing is merged.
\<close>

theorem batched_reply_returned_marked:
  "fst (send (batched_call check cmds aw) w) = Inr d \<Longrightarrow>
     fst (multicommand check send cmds aw w) = Inr (mark d)
     \<and> issued (multicommand check (logged send) cmds aw (w, [])) = [batched_call check cmds aw]
     \<and> keys (Inr (mark d)) = insert ''multicommand'' (keys (Inr d))
     \<and> (\<forall>k. k \<noteq> ''multicommand'' \<longrightarrow> map_of (mark d) k = map_of d k)"
proof -
  assume a: "fst (send (batched_call check cmds aw) w) = Inr d"
  then obtain w1 where s: "send (batched_call check cmds aw) w = (Inr d, w1)"
    by (cases "send (batched_call check cmds aw) w") simp
  from s have 1: "fst (multicommand check send cmds aw w) = Inr (mark d)"
    by (simp add: multicommand_def batched_call_def)
  from multicommand_logged_ok [where send = send and w = w and log = "[]", OF s]
  have 2: "issued (multicommand check (logged send) cmds aw (w, [])) = [batched_call check cmds aw]"
    by (simp add: issued_def)
  have 3: "keys (Inr (mark d)) = insert ''multicommand'' (keys (Inr d))"
    using dom_update [of "''multicommand''" "VBool True" d]
    by (simp add: keys_def mark_def dom_map_of_conv_image_fst)
  have 4: "\<forall>k. k \<noteq> ''multicommand'' \<longrightarrow> map_of (mark d) k = map_of d k"
    by (simp add: mark_def update_conv')
  from 1 2 3 4 show ?thesis by simp
qed

theorem batched_reply_returned_marked_witness:
  "fst (cgminer (batched_call id [''pools'', ''summary'', ''version''] True) ()) =
     Inr [(''pools'', VList [VDict (single_reply ''POOLS'')]),
          (''summary'', VList [VDict (single_reply ''SUMMARY'')]),
          (''version'', VList [VDict (single_reply ''VERSION'')])]
   \<and> keys (fst (multicommand id cgminer [''pools'', ''summary'', ''version''] True ())) =
       {''pools'', ''summary'', ''version'', ''multicommand''}
   \<and> issued (multicommand id (logged cgminer) [''pools'', ''summary'', ''version''] True ((), [])) =
       [batched_call id [''pools'', ''summary'', ''version''] True]"
proof -
  note t = batched_reply_returned_marked
    [where send = cgminer and check = id and cmds = "[''pools'', ''summary'', ''version'']"
       and aw = True and w = "()", OF cgminer_batched]
  from t have 1: "keys (fst (multicommand id cgminer [''pools'', ''summary'', ''version''] True ())) =
       {''pools'', ''summary'', ''version'', ''multicommand''}"
    by (auto simp add: keys_def)
  from t have 2:
    "issued (multicommand id (logged cgminer) [''pools'', ''summary'', ''version''] True ((), [])) =
       [batched_call id [''pools'', ''summary'', ''version''] True]"
    by simp
  from 1 2 cgminer_batched show ?thesis by simp
qed

text \<open>
  C6 as stated fails for a miner that answers as the wire protocol describes: the
  batched reply is keyed by the command names, each individual reply by \<open>STATUS\<close> and its
  section, so \<open>STATUS\<close> is a key of the individual replies and not of the result of
  \<open>multicommand\<close>.
\<close>

theorem merged_keys_counterexample:
  "fst (cgminer (batched_call id [''pools'', ''summary'', ''version''] True) ()) =
     Inr [(''pools'', VList [VDict (single_reply ''POOLS'')]),
          (''summary'', VList [VDict (single_reply ''SUMMARY'')]),
          (''version'', VList [VDict (single_reply ''VERSION'')])]
   \<and> ''STATUS'' \<in>
       keys (fst (cgminer \<lparr>command = ''pools'', parameters = None, allow_warning = None\<rparr> ()))
       \<union> keys (fst (cgminer \<lparr>command = ''summary'', parameters = None, allow_warning = None\<rparr> ()))
       \<union> keys (fst (cgminer \<lparr>command = ''version'', parameters = None, allow_warning = None\<rparr> ()))
   \<and> ''STATUS'' \<notin>
       keys (fst (multicommand id cgminer [''pools'', ''summary'', ''version''] True ()))
         - {''multicommand''}
   \<and> keys (fst (multicommand id cgminer [''pools'', ''summary'', ''version''] True ()))
       - {''multicommand''}
     \<noteq> keys (fst (cgminer \<lparr>command = ''pools'', parameters = None, allow_warning = None\<rparr> ()))
       \<union> keys (fst (cgminer \<lparr>command = ''summary'', parameters = None, allow_warning = None\<rparr> ()))
       \<union> keys (fst (cgminer \<lparr>command = ''version'', parameters = None, allow_warning = None\<rparr> ()))"
proof -
  have r: "''STATUS'' \<in>
       keys (fst (cgminer \<lparr>command = ''pools'', parameters = None, allow_warning = None\<rparr> ()))
       \<union> keys (fst (cgminer \<lparr>command = ''summary'', parameters = None, allow_warning = None\<rparr> ()))
       \<union> keys (fst (cgminer \<lparr>command = ''version'', parameters = None, allow_warning = None\<rparr> ()))"
    by (simp add: keys_def cgminer_def single_reply_def)
  have l: "''STATUS'' \<notin>
       keys (fst (multicommand id cgminer [''pools'', ''summary'', ''version''] True ()))
         - {''multicommand''}"
    by (simp add: cgminer_plain_run keys_def)
  from l r have ne: "keys (fst (multicommand id cgminer [''pools'', ''summary'', ''version''] True ()))
       - {''multicommand''}
     \<noteq> keys (fst (cgminer \<lparr>command = ''pools'', parameters = None, allow_warning = None\<rparr> ()))
       \<union> keys (fst (cgminer \<lparr>command = ''summary'', parameters = None, allow_warning = None\<rparr> ()))
       \<union> keys (fst (cgminer \<lparr>command = ''version'', parameters = None, allow_warning = None\<rparr> ()))"
    by metis
  from cgminer_batched r l ne show ?thesis by blast
qed

end
